theory Spec2Isabelle
  imports Complex_Main
begin

section \<open>The ABS controller of AutoSystemSim (ecu\_safety\_systems/abs\_control)\<close>

text \<open>
  A shallow embedding of \<^verbatim>\<open>ABSControl\<close> (abs\_control.h, abs\_control.cpp) and of the
  two structs of common/datatypes.h it reads. A C++ \<^verbatim>\<open>double\<close> is modelled as a
  \<open>real\<close>: finite values with exact arithmetic, so the comparisons, \<^verbatim>\<open>std::min\<close>,
  \<^verbatim>\<open>std::max\<close> and \<^verbatim>\<open>fabs\<close> of the source are \<open><\<close>, \<open>min\<close>, \<open>max\<close> and \<open>abs\<close>;
  rounding, infinities and NaN are outside the model. The two \<^verbatim>\<open>int\<close> fields are
  \<open>int\<close>: the counter stays within 0..11 and the fault codes are small. Logging
  and the simulated delays (\<^verbatim>\<open>sleep_for\<close>) have no effect on the controller's
  fields and are left out. Member functions take the object as their last
  argument and return it updated.
\<close>

subsection \<open>Data model\<close>

text \<open>\<^verbatim>\<open>enum class ABSState\<close> (abs\_control.h).\<close>

datatype ABSState = INACTIVE | MONITORING | INTERVENING | FAULT_DETECTED | INITIALIZING

text \<open>\<^verbatim>\<open>struct SensorData\<close> (datatypes.h); \<^verbatim>\<open>id\<close> and \<^verbatim>\<open>value\<close> are prefixed, since
  both names are taken in Isabelle.\<close>

record SensorData =
  sensor_id :: int
  sensor_value :: real
  sensor_unit :: string
  timestamp_ms :: int

text \<open>\<^verbatim>\<open>struct VehicleState\<close> (datatypes.h); its speed field is prefixed to keep it
  apart from the wheel's \<^verbatim>\<open>speed_kmh\<close>.\<close>

record VehicleState =
  vehicle_speed_kmh :: real
  engine_rpm :: int
  current_gear :: int
  lights_on :: bool
  battery_voltage :: real
  status_message :: string

text \<open>\<^verbatim>\<open>struct WheelSensorData\<close> (abs\_control.h).\<close>

record WheelSensorData =
  wheel_id :: int
  speed_kmh :: real
  is_locking :: bool
  applied_brake_pressure_bar :: real

text \<open>The private fields of \<^verbatim>\<open>class ABSControl\<close>.\<close>

record ABSControl =
  current_abs_state :: ABSState
  wheel_data :: "WheelSensorData list"
  vehicle_reference_speed_kmh :: real
  cycles_since_last_intervention :: int
  fault_code :: int

subsection \<open>Reference speed\<close>

text \<open>
  The loop of \<^verbatim>\<open>updateVehicleReferenceSpeed\<close>: it runs over the indices that both
  the sensor batch and \<^verbatim>\<open>wheel_data_\<close> have, copies each reading into the wheel and
  accumulates the sum, the count and the maximum of the readings \<open>\<ge> 0\<close>.
\<close>

fun speed_loop ::
  "SensorData list \<Rightarrow> WheelSensorData list \<Rightarrow> real \<Rightarrow> int \<Rightarrow> real
     \<Rightarrow> WheelSensorData list \<times> real \<times> int \<times> real" where
  "speed_loop (sd # sds) (w # ws) sum_speeds valid_sensors max_wheel_speed =
     (let w' = w\<lparr>speed_kmh := sensor_value sd\<rparr>;
          (ws', acc) =
            (if sensor_value sd \<ge> 0
             then speed_loop sds ws (sum_speeds + sensor_value sd) (valid_sensors + 1)
                    (if sensor_value sd > max_wheel_speed then sensor_value sd
                     else max_wheel_speed)
             else speed_loop sds ws sum_speeds valid_sensors max_wheel_speed)
      in (w' # ws', acc))"
| "speed_loop sds ws sum_speeds valid_sensors max_wheel_speed =
     (ws, sum_speeds, valid_sensors, max_wheel_speed)"

definition updateVehicleReferenceSpeed ::
  "SensorData list \<Rightarrow> real \<Rightarrow> ABSControl \<Rightarrow> ABSControl" where
  "updateVehicleReferenceSpeed wheel_speed_sensors current_vehicle_speed_from_state s =
     (case speed_loop wheel_speed_sensors (wheel_data s) 0 0 0 of
        (wd, sum_speeds, valid_sensors, max_wheel_speed) \<Rightarrow>
          let ref =
            (if valid_sensors > 0 then
               let avg_wheel_speed = sum_speeds / real_of_int valid_sensors;
                   blended =
                     (if current_vehicle_speed_from_state > 0
                         \<and> \<bar>current_vehicle_speed_from_state - avg_wheel_speed\<bar> < 20
                      then (current_vehicle_speed_from_state + avg_wheel_speed) / 2
                      else avg_wheel_speed)
               in (if max_wheel_speed > blended \<and> blended > 5
                   then (blended + max_wheel_speed) / 2
                   else blended)
             else 0)
          in s\<lparr>wheel_data := wd, vehicle_reference_speed_kmh := min ref 300\<rparr>)"

subsection \<open>Lockup detection and the pressure primitives\<close>

definition detectWheelLockup :: "ABSControl \<Rightarrow> WheelSensorData \<Rightarrow> real \<Rightarrow> bool" where
  "detectWheelLockup s wheel deceleration_threshold_g =
     (if vehicle_reference_speed_kmh s < 5 then False
      else
        let slip_ratio =
              (if vehicle_reference_speed_kmh s > 1
               then (vehicle_reference_speed_kmh s - speed_kmh wheel)
                      / vehicle_reference_speed_kmh s
               else 0)
        in slip_ratio > 0.20 \<and> speed_kmh wheel < vehicle_reference_speed_kmh s * 0.85)"

definition releasePressure :: "WheelSensorData \<Rightarrow> WheelSensorData" where
  "releasePressure wheel =
     (let w1 = wheel\<lparr>applied_brake_pressure_bar :=
                       max 0 (applied_brake_pressure_bar wheel - 50)\<rparr>
      in if applied_brake_pressure_bar w1 < 0
         then w1\<lparr>applied_brake_pressure_bar := 0\<rparr> else w1)"

definition holdPressure :: "WheelSensorData \<Rightarrow> WheelSensorData" where
  "holdPressure wheel = wheel"

definition reapplyPressure :: "WheelSensorData \<Rightarrow> WheelSensorData" where
  "reapplyPressure wheel =
     wheel\<lparr>applied_brake_pressure_bar := applied_brake_pressure_bar wheel + 20\<rparr>"

text \<open>The clamp \<^verbatim>\<open>std::max(0.0, std::min(p, 200.0))\<close>, written twice in the source.\<close>

definition clamp_pressure :: "WheelSensorData \<Rightarrow> WheelSensorData" where
  "clamp_pressure wd =
     wd\<lparr>applied_brake_pressure_bar := max 0 (min (applied_brake_pressure_bar wd) 200)\<rparr>"

definition modulateBrakePressure :: "ABSControl \<Rightarrow> WheelSensorData \<Rightarrow> WheelSensorData" where
  "modulateBrakePressure s wheel_to_modulate =
     clamp_pressure
       (if is_locking wheel_to_modulate then releasePressure wheel_to_modulate
        else if speed_kmh wheel_to_modulate < vehicle_reference_speed_kmh s * 0.95
             then holdPressure wheel_to_modulate
             else reapplyPressure wheel_to_modulate)"

subsection \<open>Fault monitor\<close>

text \<open>
  The loop of \<^verbatim>\<open>checkForSystemFaults\<close>, over the whole batch: \<open>Inl code\<close> is the
  early return with that fault code, \<open>Inr n\<close> the count of readings \<open>\<ge> -1\<close> when
  the loop runs to its end.
\<close>

fun check_sensors :: "SensorData list \<Rightarrow> nat \<Rightarrow> int \<Rightarrow> int + int" where
  "check_sensors [] i valid_sensor_count = Inr valid_sensor_count"
| "check_sensors (sd # sds) i valid_sensor_count =
     (if sensor_id sd \<noteq> int i then Inl (10 + int i)
      else if sensor_value sd < -10 \<or> sensor_value sd > 350 then Inl (20 + int i)
      else check_sensors sds (Suc i)
             (if sensor_value sd \<ge> -1 then valid_sensor_count + 1
              else valid_sensor_count))"

definition checkForSystemFaults :: "SensorData list \<Rightarrow> ABSControl \<Rightarrow> ABSControl" where
  "checkForSystemFaults wheel_speed_sensors s =
     (case check_sensors wheel_speed_sensors 0 0 of
        Inl code \<Rightarrow> s\<lparr>current_abs_state := FAULT_DETECTED, fault_code := code\<rparr>
      | Inr valid_sensor_count \<Rightarrow>
          if valid_sensor_count < int (length wheel_speed_sensors)
               \<and> vehicle_reference_speed_kmh s > 10
          then (if valid_sensor_count = 0 \<and> length wheel_speed_sensors > 0
                then s\<lparr>current_abs_state := FAULT_DETECTED, fault_code := 30\<rparr>
                else s)
          else s)"

subsection \<open>The braking cycle\<close>

text \<open>
  Step 4's first loop. Its body on one wheel: unless the controller is
  intervening and the wheel is still flagged from the cycle before, the wheel
  takes the pedal pressure; then its flag is recomputed by the detector.
\<close>

definition detect_wheel :: "ABSControl \<Rightarrow> real \<Rightarrow> WheelSensorData \<Rightarrow> WheelSensorData" where
  "detect_wheel s brake_pedal_pressure_input wd =
     (let w1 = (if current_abs_state s \<noteq> INTERVENING \<or> \<not> is_locking wd
                then wd\<lparr>applied_brake_pressure_bar := brake_pedal_pressure_input\<rparr>
                else wd)
      in w1\<lparr>is_locking := detectWheelLockup s w1 1\<rparr>)"

text \<open>The loop itself, with \<^verbatim>\<open>any_wheel_locking\<close> collecting the new flags.\<close>

fun lockup_loop ::
  "ABSControl \<Rightarrow> real \<Rightarrow> WheelSensorData list \<Rightarrow> bool \<Rightarrow> WheelSensorData list \<times> bool" where
  "lockup_loop s brake_pedal_pressure_input [] any_wheel_locking = ([], any_wheel_locking)"
| "lockup_loop s brake_pedal_pressure_input (wd # wds) any_wheel_locking =
     (let w2 = detect_wheel s brake_pedal_pressure_input wd;
          (wds', any') =
            lockup_loop s brake_pedal_pressure_input wds
              (if is_locking w2 then True else any_wheel_locking)
      in (w2 # wds', any'))"

text \<open>The three per-wheel loops that follow the detection loop.\<close>

definition intervene_wheel :: "ABSControl \<Rightarrow> real \<Rightarrow> WheelSensorData \<Rightarrow> WheelSensorData" where
  "intervene_wheel s brake_pedal_pressure_input wd =
     (if is_locking wd
         \<or> (vehicle_reference_speed_kmh s - speed_kmh wd) > vehicle_reference_speed_kmh s * 0.15
      then modulateBrakePressure s wd
      else wd\<lparr>applied_brake_pressure_bar := brake_pedal_pressure_input\<rparr>)"

definition recover_wheel :: "real \<Rightarrow> WheelSensorData \<Rightarrow> WheelSensorData" where
  "recover_wheel brake_pedal_pressure_input wd =
     (if applied_brake_pressure_bar wd < brake_pedal_pressure_input
      then (let w1 = reapplyPressure wd
            in w1\<lparr>applied_brake_pressure_bar :=
                     min (applied_brake_pressure_bar w1) brake_pedal_pressure_input\<rparr>)
      else wd\<lparr>applied_brake_pressure_bar := brake_pedal_pressure_input\<rparr>)"

definition pass_through :: "real \<Rightarrow> WheelSensorData \<Rightarrow> WheelSensorData" where
  "pass_through brake_pedal_pressure_input wd =
     wd\<lparr>applied_brake_pressure_bar := brake_pedal_pressure_input\<rparr>"

text \<open>Step 3 of \<^verbatim>\<open>processBraking\<close>: the two transitions driven by the entry condition.\<close>

definition determine_active :: "bool \<Rightarrow> ABSControl \<Rightarrow> ABSControl" where
  "determine_active potential_intervention_needed s =
     (if \<not> potential_intervention_needed \<and> current_abs_state s = INTERVENING
      then s\<lparr>current_abs_state := INACTIVE, cycles_since_last_intervention := 0\<rparr>
      else if potential_intervention_needed \<and> current_abs_state s = INACTIVE
      then s\<lparr>current_abs_state := MONITORING\<rparr>
      else s)"

text \<open>Step 4 of \<^verbatim>\<open>processBraking\<close>: detection, then release, recovery or pass-through.\<close>

definition main_abs_logic :: "bool \<Rightarrow> real \<Rightarrow> ABSControl \<Rightarrow> ABSControl" where
  "main_abs_logic potential_intervention_needed brake_pedal_pressure_input s =
     (if current_abs_state s = MONITORING \<or> current_abs_state s = INTERVENING then
        (case lockup_loop s brake_pedal_pressure_input (wheel_data s) False of
           (wds, any_wheel_locking) \<Rightarrow>
             let s1 = s\<lparr>wheel_data := wds\<rparr> in
             if any_wheel_locking then
               (let s2 = (if current_abs_state s1 \<noteq> INTERVENING
                          then s1\<lparr>current_abs_state := INTERVENING\<rparr> else s1);
                    s3 = s2\<lparr>cycles_since_last_intervention := 0\<rparr>
                in s3\<lparr>wheel_data :=
                        map (intervene_wheel s3 brake_pedal_pressure_input) (wheel_data s3)\<rparr>)
             else if current_abs_state s1 = INTERVENING then
               (let s2 = s1\<lparr>cycles_since_last_intervention :=
                              cycles_since_last_intervention s1 + 1\<rparr>;
                    s3 = s2\<lparr>wheel_data :=
                              map (recover_wheel brake_pedal_pressure_input) (wheel_data s2)\<rparr>
                in if cycles_since_last_intervention s3 > 10
                   then s3\<lparr>current_abs_state :=
                              (if potential_intervention_needed then MONITORING else INACTIVE),
                            cycles_since_last_intervention := 0\<rparr>
                   else s3)
             else
               s1\<lparr>current_abs_state :=
                     (if potential_intervention_needed then MONITORING else INACTIVE),
                   wheel_data := map (pass_through brake_pedal_pressure_input) (wheel_data s1)\<rparr>)
      else
        s\<lparr>wheel_data := map (pass_through brake_pedal_pressure_input) (wheel_data s)\<rparr>)"

definition processBraking ::
  "VehicleState \<Rightarrow> SensorData list \<Rightarrow> real \<Rightarrow> ABSControl \<Rightarrow> ABSControl" where
  "processBraking vehicle_state wheel_speed_sensors brake_pedal_pressure_input s =
     (if current_abs_state s = FAULT_DETECTED then
        s\<lparr>wheel_data := map (pass_through brake_pedal_pressure_input) (wheel_data s)\<rparr>
      else if current_abs_state s = INITIALIZING then s
      else
        let s1 = updateVehicleReferenceSpeed wheel_speed_sensors
                   (vehicle_speed_kmh vehicle_state) s;
            s2 = checkForSystemFaults wheel_speed_sensors s1
        in if current_abs_state s2 = FAULT_DETECTED then s2
           else
             let potential_intervention_needed =
                   (vehicle_reference_speed_kmh s2 > 10 \<and> brake_pedal_pressure_input > 20);
                 s3 = determine_active potential_intervention_needed s2;
                 s4 = main_abs_logic potential_intervention_needed
                        brake_pedal_pressure_input s3
             in s4\<lparr>wheel_data := map clamp_pressure (wheel_data s4)\<rparr>)"

subsection \<open>Diagnostics\<close>

text \<open>
  \<^verbatim>\<open>runDiagnostics\<close> draws from the C library's \<^verbatim>\<open>rand()\<close>, whose results are
  non-negative. The draws of one call are an input here: \<open>rand_draws k\<close> is the
  value of the \<open>k\<close>-th call of \<^verbatim>\<open>rand()\<close> (from 0). A failed sensor check draws
  twice more, once for the log line and once for the fault code, before the
  actuator check draws.
\<close>

definition runDiagnostics :: "(nat \<Rightarrow> nat) \<Rightarrow> ABSControl \<Rightarrow> ABSControl" where
  "runDiagnostics rand_draws s =
     (let s0 = s\<lparr>current_abs_state := INITIALIZING, fault_code := 0\<rparr>;
          sensor_conn_ok = (rand_draws 0 mod 100 > 2);
          s1 = (if \<not> sensor_conn_ok
                then s0\<lparr>current_abs_state := FAULT_DETECTED,
                        fault_code := 50 + int (rand_draws 2 mod 4)\<rparr>
                else s0);
          actuator_ok = (rand_draws (if sensor_conn_ok then 1 else 3) mod 100 > 3);
          s2 = (if \<not> actuator_ok \<and> current_abs_state s1 \<noteq> FAULT_DETECTED
                then s1\<lparr>current_abs_state := FAULT_DETECTED, fault_code := 70\<rparr>
                else s1)
      in if current_abs_state s2 = FAULT_DETECTED then s2
         else s2\<lparr>current_abs_state := INACTIVE\<rparr>)"

subsection \<open>Running several cycles\<close>

text \<open>
  The owning scheduler calls \<^verbatim>\<open>processBraking\<close> once per control cycle
  (main\_vehicle\_controller.cpp); a run is the list of the inputs of its calls.
\<close>

type_synonym cycle_input = "VehicleState \<times> SensorData list \<times> real"

fun run_cycles :: "cycle_input list \<Rightarrow> ABSControl \<Rightarrow> ABSControl" where
  "run_cycles [] s = s"
| "run_cycles ((vehicle_state, wheel_speed_sensors, pedal) # rest) s =
     run_cycles rest (processBraking vehicle_state wheel_speed_sensors pedal s)"

subsection \<open>Concrete inputs\<close>

definition sensor :: "int \<Rightarrow> real \<Rightarrow> SensorData" where
  "sensor i v = \<lparr>sensor_id = i, sensor_value = v, sensor_unit = ''km/h'', timestamp_ms = 0\<rparr>"

definition vehicle_at :: "real \<Rightarrow> VehicleState" where
  "vehicle_at v = \<lparr>vehicle_speed_kmh = v, engine_rpm = 2000, current_gear = 3,
     lights_on = False, battery_voltage = 12, status_message = ''''\<rparr>"

definition wheel :: "int \<Rightarrow> real \<Rightarrow> bool \<Rightarrow> real \<Rightarrow> WheelSensorData" where
  "wheel i v l p = \<lparr>wheel_id = i, speed_kmh = v, is_locking = l, applied_brake_pressure_bar = p\<rparr>"

definition controller ::
  "ABSState \<Rightarrow> WheelSensorData list \<Rightarrow> real \<Rightarrow> int \<Rightarrow> int \<Rightarrow> ABSControl" where
  "controller st wds ref cyc fc = \<lparr>current_abs_state = st, wheel_data = wds,
     vehicle_reference_speed_kmh = ref, cycles_since_last_intervention = cyc, fault_code = fc\<rparr>"

text \<open>The controller as \<^verbatim>\<open>initialize()\<close> leaves its wheels: four channels at rest.\<close>

definition wheels_at_rest :: "WheelSensorData list" where
  "wheels_at_rest = [wheel 0 0 False 0, wheel 1 0 False 0, wheel 2 0 False 0, wheel 3 0 False 0]"

text \<open>A steady drive at 50 km/h with 30 bar on the pedal, and the wheels it settles on.\<close>

definition steady_wheels :: "WheelSensorData list" where
  "steady_wheels =
     [wheel 0 50 False 30, wheel 1 50 False 30, wheel 2 50 False 30, wheel 3 50 False 30]"

definition steady_input :: cycle_input where
  "steady_input = (vehicle_at 50, [sensor 0 50, sensor 1 50, sensor 2 50, sensor 3 50], 30)"

text \<open>Hard braking from about 90 km/h with one wheel stopped and one slipping.\<close>

definition braking_wheels :: "WheelSensorData list" where
  "braking_wheels =
     [wheel 0 98 False 80, wheel 1 98 False 80, wheel 2 90 False 80, wheel 3 60 False 80]"

definition braking_sensors :: "SensorData list" where
  "braking_sensors = [sensor 0 100, sensor 1 100, sensor 2 70, sensor 3 0]"

text \<open>Crawling at about 3 km/h with one wheel stopped.\<close>

definition crawl_sensors :: "SensorData list" where
  "crawl_sensors = [sensor 0 4, sensor 1 4, sensor 2 4, sensor 3 0]"

subsection \<open>Predicates of the properties\<close>

text \<open>Every wheel's applied pressure lies within the actuator limits, 0 to 200 bar.\<close>

definition pressures_within_limits :: "ABSControl \<Rightarrow> bool" where
  "pressures_within_limits s =
     list_all (\<lambda>wd. 0 \<le> applied_brake_pressure_bar wd \<and> applied_brake_pressure_bar wd \<le> 200)
       (wheel_data s)"

text \<open>The readings of a batch that the reference-speed update counts as valid.\<close>

definition valid_readings :: "SensorData list \<Rightarrow> real list" where
  "valid_readings sds = filter (\<lambda>v. v \<ge> 0) (map sensor_value sds)"

text \<open>A pressure cut to the actuator limits.\<close>

definition limit_bar :: "real \<Rightarrow> real" where
  "limit_bar p = max 0 (min p 200)"

text \<open>
  The reference-speed estimate in the specification's words (section 4.1, steps
  2 to 4), from the valid readings and the vehicle-speed hint: the arithmetic
  mean, blended 50/50 with the hint when the hint is present (positive) and
  within 20 km/h of the mean, then moved to the midpoint of itself and the
  maximum valid reading when that maximum exceeds it and it exceeds 5 km/h.
\<close>

definition spec_reference_estimate :: "real list \<Rightarrow> real \<Rightarrow> real" where
  "spec_reference_estimate valid hint =
     (let mean = sum_list valid / real (length valid);
          estimate = (if hint > 0 \<and> \<bar>hint - mean\<bar> < 20 then (hint + mean) / 2 else mean)
      in if Max (set valid) > estimate \<and> estimate > 5
         then (estimate + Max (set valid)) / 2 else estimate)"

text \<open>
  A clean cycle of a hysteresis run: the call is not aborted by a fault, the
  entry condition holds (reference speed above 10 km/h, pedal above 20 bar) and
  no wheel is flagged when it returns. A clean run is a list of inputs each of
  which is a clean cycle in the state the cycles before it have left.
\<close>

definition clean_cycle :: "cycle_input \<Rightarrow> ABSControl \<Rightarrow> bool" where
  "clean_cycle inp s =
     (case inp of (vehicle_state, wheel_speed_sensors, pedal) \<Rightarrow>
        let s' = processBraking vehicle_state wheel_speed_sensors pedal s
        in current_abs_state s' \<noteq> FAULT_DETECTED
           \<and> vehicle_reference_speed_kmh s' > 10 \<and> pedal > 20
           \<and> list_all (\<lambda>wd. \<not> is_locking wd) (wheel_data s'))"

fun clean_run :: "cycle_input list \<Rightarrow> ABSControl \<Rightarrow> bool" where
  "clean_run [] s = True"
| "clean_run (inp # rest) s = (clean_cycle inp s \<and> clean_run rest (run_cycles [inp] s))"

section \<open>Auxiliary facts about the loops and the steps\<close>

lemma speed_loop_wheels:
  "fst (speed_loop sds ws a b c) =
     map (\<lambda>(sd, w). w\<lparr>speed_kmh := sensor_value sd\<rparr>) (zip sds ws) @ drop (length sds) ws"
  by (induction sds ws a b c rule: speed_loop.induct) (auto simp: Let_def split: prod.splits)

lemma speed_loop_length: "length (fst (speed_loop sds ws a b c)) = length ws"
  by (induction sds ws a b c rule: speed_loop.induct) (auto simp: Let_def split: prod.splits)

lemma speed_loop_pressure:
  "map applied_brake_pressure_bar (fst (speed_loop sds ws a b c))
     = map applied_brake_pressure_bar ws"
  by (induction sds ws a b c rule: speed_loop.induct) (auto simp: Let_def split: prod.splits)

lemma speed_loop_flags:
  "map is_locking (fst (speed_loop sds ws a b c)) = map is_locking ws"
  by (induction sds ws a b c rule: speed_loop.induct) (auto simp: Let_def split: prod.splits)

lemma speed_loop_acc:
  "snd (speed_loop sds ws a b c) =
     (a + sum_list (valid_readings (take (length ws) sds)),
      b + int (length (valid_readings (take (length ws) sds))),
      fold max (valid_readings (take (length ws) sds)) c)"
  by (induction sds ws a b c rule: speed_loop.induct)
     (auto simp: Let_def valid_readings_def max_def split: prod.splits)

lemma update_state [simp]:
  "current_abs_state (updateVehicleReferenceSpeed sds v s) = current_abs_state s"
  "cycles_since_last_intervention (updateVehicleReferenceSpeed sds v s)
     = cycles_since_last_intervention s"
  "fault_code (updateVehicleReferenceSpeed sds v s) = fault_code s"
  by (simp_all add: updateVehicleReferenceSpeed_def Let_def split: prod.splits)

lemma update_wheels:
  "wheel_data (updateVehicleReferenceSpeed sds v s) = fst (speed_loop sds (wheel_data s) 0 0 0)"
  by (simp add: updateVehicleReferenceSpeed_def Let_def split: prod.splits)

lemma check_only_state:
  "wheel_data (checkForSystemFaults sds s) = wheel_data s"
  "vehicle_reference_speed_kmh (checkForSystemFaults sds s) = vehicle_reference_speed_kmh s"
  "cycles_since_last_intervention (checkForSystemFaults sds s) = cycles_since_last_intervention s"
  by (simp_all add: checkForSystemFaults_def split: sum.splits)

lemma check_state_cases:
  "checkForSystemFaults sds s = s
   \<or> current_abs_state (checkForSystemFaults sds s) = FAULT_DETECTED"
  by (simp add: checkForSystemFaults_def split: sum.splits)

lemma lockup_loop_wheels: "fst (lockup_loop s pedal wds any) = map (detect_wheel s pedal) wds"
  by (induction wds arbitrary: any) (simp_all add: Let_def case_prod_beta)

lemma lockup_loop_any:
  "snd (lockup_loop s pedal wds any)
     = (any \<or> (\<exists>w \<in> set (map (detect_wheel s pedal) wds). is_locking w))"
  by (induction wds arbitrary: any) (auto simp add: Let_def case_prod_beta)

text \<open>A cycle that is neither refused on entry nor aborted by a fault ends with the clamp.\<close>

lemma processBraking_complete:
  assumes "current_abs_state s \<noteq> FAULT_DETECTED" "current_abs_state s \<noteq> INITIALIZING"
    "current_abs_state (processBraking vs sds pedal s) \<noteq> FAULT_DETECTED"
  shows "\<exists>wds. wheel_data (processBraking vs sds pedal s) = map clamp_pressure wds"
  using assms by (auto simp: processBraking_def Let_def)

text \<open>A cycle that ends in FAULT\_DETECTED without having started there stopped at step 2.\<close>

lemma processBraking_midfault:
  assumes "current_abs_state s \<noteq> FAULT_DETECTED" "current_abs_state s \<noteq> INITIALIZING"
    "current_abs_state (processBraking vs sds pedal s) = FAULT_DETECTED"
  shows "processBraking vs sds pedal s
           = checkForSystemFaults sds (updateVehicleReferenceSpeed sds (vehicle_speed_kmh vs) s)"
proof -
  have not_fault:
    "current_abs_state (main_abs_logic b pedal (determine_active b s')) \<noteq> FAULT_DETECTED"
    if "current_abs_state s' \<noteq> FAULT_DETECTED" for b s'
    using that
    by (auto simp: main_abs_logic_def determine_active_def Let_def split: prod.splits)
  show ?thesis
    using assms not_fault by (auto simp: processBraking_def Let_def)
qed

lemma midfault_pressures:
  "map applied_brake_pressure_bar
     (wheel_data (checkForSystemFaults sds (updateVehicleReferenceSpeed sds v s)))
   = map applied_brake_pressure_bar (wheel_data s)"
  by (simp add: check_only_state update_wheels speed_loop_pressure)

lemma run_cycles_fault:
  "current_abs_state s = FAULT_DETECTED \<Longrightarrow>
     current_abs_state (run_cycles inputs s) = FAULT_DETECTED
     \<and> fault_code (run_cycles inputs s) = fault_code s"
proof (induction inputs arbitrary: s)
  case Nil
  then show ?case by simp
next
  case (Cons inp inputs)
  obtain vs sds pedal where inp: "inp = (vs, sds, pedal)" by (cases inp)
  have "current_abs_state (processBraking vs sds pedal s) = FAULT_DETECTED"
       "fault_code (processBraking vs sds pedal s) = fault_code s"
    using Cons.prems by (simp_all add: processBraking_def)
  with Cons.IH [of "processBraking vs sds pedal s"] inp show ?case by simp
qed

text \<open>Unfolding sets for evaluating the functions on concrete inputs.\<close>

lemmas ex_defs = sensor_def vehicle_at_def wheel_def controller_def wheels_at_rest_def

lemmas step_defs = processBraking_def updateVehicleReferenceSpeed_def checkForSystemFaults_def
  determine_active_def main_abs_logic_def detect_wheel_def detectWheelLockup_def
  intervene_wheel_def recover_wheel_def pass_through_def clamp_pressure_def
  modulateBrakePressure_def releasePressure_def holdPressure_def reapplyPressure_def

subsection \<open>Fields the per-wheel steps leave alone\<close>

lemma detect_wheel_fields [simp]:
  "speed_kmh (detect_wheel s pedal wd) = speed_kmh wd"
  "applied_brake_pressure_bar (detect_wheel s pedal wd)
     = (if current_abs_state s = INTERVENING \<and> is_locking wd
        then applied_brake_pressure_bar wd else pedal)"
  by (simp_all add: detect_wheel_def Let_def)

lemma detect_wheel_flag:
  "is_locking (detect_wheel s pedal wd) = detectWheelLockup s wd 1"
  by (simp add: detect_wheel_def Let_def detectWheelLockup_def)

lemma intervene_wheel_fields [simp]:
  "is_locking (intervene_wheel s pedal wd) = is_locking wd"
  "speed_kmh (intervene_wheel s pedal wd) = speed_kmh wd"
  by (simp_all add: intervene_wheel_def modulateBrakePressure_def clamp_pressure_def
        releasePressure_def holdPressure_def reapplyPressure_def Let_def)

lemma recover_wheel_fields [simp]:
  "is_locking (recover_wheel pedal wd) = is_locking wd"
  "speed_kmh (recover_wheel pedal wd) = speed_kmh wd"
  by (simp_all add: recover_wheel_def reapplyPressure_def Let_def)

lemma pass_through_fields [simp]:
  "is_locking (pass_through pedal wd) = is_locking wd"
  "speed_kmh (pass_through pedal wd) = speed_kmh wd"
  "applied_brake_pressure_bar (pass_through pedal wd) = pedal"
  by (simp_all add: pass_through_def)

lemma clamp_pressure_fields [simp]:
  "is_locking (clamp_pressure wd) = is_locking wd"
  "speed_kmh (clamp_pressure wd) = speed_kmh wd"
  "applied_brake_pressure_bar (clamp_pressure wd) = limit_bar (applied_brake_pressure_bar wd)"
  by (simp_all add: clamp_pressure_def limit_bar_def)

lemma limit_bar_idem [simp]: "limit_bar (limit_bar p) = limit_bar p"
  by (simp add: limit_bar_def)

lemma speed_loop_nth:
  assumes "i < length ws"
  shows "is_locking (fst (speed_loop sds ws a b c) ! i) = is_locking (ws ! i)"
    and "applied_brake_pressure_bar (fst (speed_loop sds ws a b c) ! i)
           = applied_brake_pressure_bar (ws ! i)"
proof -
  have "map is_locking (fst (speed_loop sds ws a b c)) ! i = map is_locking ws ! i"
    by (simp only: speed_loop_flags)
  then show "is_locking (fst (speed_loop sds ws a b c) ! i) = is_locking (ws ! i)"
    using assms by (simp add: speed_loop_length)
  have "map applied_brake_pressure_bar (fst (speed_loop sds ws a b c)) ! i
          = map applied_brake_pressure_bar ws ! i"
    by (simp only: speed_loop_pressure)
  then show "applied_brake_pressure_bar (fst (speed_loop sds ws a b c) ! i)
           = applied_brake_pressure_bar (ws ! i)"
    using assms by (simp add: speed_loop_length)
qed

subsection \<open>The shape of a cycle\<close>

lemma main_logic_ref [simp]:
  "vehicle_reference_speed_kmh (main_abs_logic b pedal s) = vehicle_reference_speed_kmh s"
  by (simp add: main_abs_logic_def Let_def case_prod_beta)

lemma determine_active_frame [simp]:
  "vehicle_reference_speed_kmh (determine_active b s) = vehicle_reference_speed_kmh s"
  "wheel_data (determine_active b s) = wheel_data s"
  "fault_code (determine_active b s) = fault_code s"
  by (simp_all add: determine_active_def)

lemma length_main_logic [simp]:
  "length (wheel_data (main_abs_logic b pedal s)) = length (wheel_data s)"
  by (simp add: main_abs_logic_def Let_def case_prod_beta lockup_loop_wheels)

lemma length_processBraking [simp]:
  "length (wheel_data (processBraking vs sds pedal s)) = length (wheel_data s)"
  by (simp add: processBraking_def Let_def check_only_state update_wheels speed_loop_length)

text \<open>A cycle that runs to its end, with the fault check passed.\<close>

lemma processBraking_no_fault:
  assumes "current_abs_state s \<noteq> FAULT_DETECTED" "current_abs_state s \<noteq> INITIALIZING"
    "current_abs_state (processBraking vs sds pedal s) \<noteq> FAULT_DETECTED"
  shows "processBraking vs sds pedal s =
     (let s1 = updateVehicleReferenceSpeed sds (vehicle_speed_kmh vs) s;
          b = (vehicle_reference_speed_kmh s1 > 10 \<and> pedal > 20);
          s4 = main_abs_logic b pedal (determine_active b s1)
      in s4\<lparr>wheel_data := map clamp_pressure (wheel_data s4)\<rparr>)"
proof -
  let ?s1 = "updateVehicleReferenceSpeed sds (vehicle_speed_kmh vs) s"
  have "current_abs_state (checkForSystemFaults sds ?s1) \<noteq> FAULT_DETECTED"
    using assms by (auto simp: processBraking_def Let_def)
  then have "checkForSystemFaults sds ?s1 = ?s1"
    using check_state_cases [of sds ?s1] by simp
  then show ?thesis
    using assms(1,2) by (simp add: processBraking_def Let_def)
qed

lemma processBraking_entry_state:
  assumes "current_abs_state (processBraking vs sds pedal s) = INTERVENING"
  shows "current_abs_state s \<noteq> FAULT_DETECTED" "current_abs_state s \<noteq> INITIALIZING"
  using assms by (auto simp: processBraking_def)

text \<open>Step 4 with the detection loop written as a map over the wheels.\<close>

lemma main_abs_logic_map:
  "main_abs_logic b pedal s =
     (if current_abs_state s = MONITORING \<or> current_abs_state s = INTERVENING then
        (let wds = map (detect_wheel s pedal) (wheel_data s) in
         if \<exists>w \<in> set wds. is_locking w
         then s\<lparr>current_abs_state := INTERVENING, cycles_since_last_intervention := 0,
                wheel_data := map (intervene_wheel s pedal) wds\<rparr>
         else if current_abs_state s = INTERVENING
         then (if cycles_since_last_intervention s + 1 > 10
               then s\<lparr>current_abs_state := (if b then MONITORING else INACTIVE),
                      cycles_since_last_intervention := 0,
                      wheel_data := map (recover_wheel pedal) wds\<rparr>
               else s\<lparr>cycles_since_last_intervention := cycles_since_last_intervention s + 1,
                      wheel_data := map (recover_wheel pedal) wds\<rparr>)
         else s\<lparr>current_abs_state := (if b then MONITORING else INACTIVE),
                wheel_data := map (pass_through pedal) wds\<rparr>)
      else s\<lparr>wheel_data := map (pass_through pedal) (wheel_data s)\<rparr>)"
  by (auto simp add: main_abs_logic_def Let_def case_prod_beta lockup_loop_wheels lockup_loop_any
        intervene_wheel_def modulateBrakePressure_def)

subsection \<open>Low reference speed\<close>

lemma low_speed_detect:
  "vehicle_reference_speed_kmh s < 5 \<Longrightarrow> \<not> is_locking (detect_wheel s pedal wd)"
  by (simp add: detect_wheel_flag detectWheelLockup_def)

lemma main_logic_low_speed_flags:
  assumes "vehicle_reference_speed_kmh s < 5"
  shows "map is_locking (wheel_data (main_abs_logic b pedal s))
           = (if current_abs_state s = MONITORING \<or> current_abs_state s = INTERVENING
              then map (\<lambda>wd. False) (wheel_data s) else map is_locking (wheel_data s))"
  using assms
  by (simp add: main_abs_logic_map Let_def low_speed_detect comp_def)

subsection \<open>The intervention branch\<close>

text \<open>What the intervention branch does to one wheel, by the wheel's new flag and slip.\<close>

lemma intervene_wheel_pressure:
  assumes "0 < vehicle_reference_speed_kmh s"
  shows "applied_brake_pressure_bar (intervene_wheel s pedal wd) =
     (if is_locking wd then limit_bar (max 0 (applied_brake_pressure_bar wd - 50))
      else if vehicle_reference_speed_kmh s - speed_kmh wd > vehicle_reference_speed_kmh s * 0.15
      then limit_bar (applied_brake_pressure_bar wd)
      else pedal)"
proof -
  have hold: "speed_kmh wd < vehicle_reference_speed_kmh s * 0.95"
    if "vehicle_reference_speed_kmh s - speed_kmh wd > vehicle_reference_speed_kmh s * 0.15"
    using that assms by simp
  show ?thesis
    using hold
    by (auto simp: intervene_wheel_def modulateBrakePressure_def clamp_pressure_def limit_bar_def
          releasePressure_def holdPressure_def Let_def)
qed

lemma detect_needs_speed: "detectWheelLockup s wd g \<Longrightarrow> 5 \<le> vehicle_reference_speed_kmh s"
  by (simp add: detectWheelLockup_def split: if_splits)

text \<open>A call that returns in INTERVENING with a flagged wheel took the intervention branch.\<close>

lemma intervention_cycle_shape:
  assumes st: "current_abs_state (processBraking vs sds pedal s) = INTERVENING"
    and fl: "\<exists>wd \<in> set (wheel_data (processBraking vs sds pedal s)). is_locking wd"
  defines "s1 \<equiv> updateVehicleReferenceSpeed sds (vehicle_speed_kmh vs) s"
  defines "s3 \<equiv> determine_active (vehicle_reference_speed_kmh s1 > 10 \<and> pedal > 20) s1"
  shows "wheel_data (processBraking vs sds pedal s)
           = map (clamp_pressure \<circ> intervene_wheel s3 pedal \<circ> detect_wheel s3 pedal)
               (wheel_data s1)"
    and "cycles_since_last_intervention (processBraking vs sds pedal s) = 0"
    and "vehicle_reference_speed_kmh (processBraking vs sds pedal s)
           = vehicle_reference_speed_kmh s1"
    and "vehicle_reference_speed_kmh s3 = vehicle_reference_speed_kmh s1"
    and "(current_abs_state s3 = INTERVENING) = (current_abs_state s = INTERVENING)"
    and "5 \<le> vehicle_reference_speed_kmh s1"
proof -
  let ?b = "vehicle_reference_speed_kmh s1 > 10 \<and> pedal > 20"
  let ?s' = "processBraking vs sds pedal s"
  note entry = processBraking_entry_state [OF st]
  have nf: "current_abs_state ?s' \<noteq> FAULT_DETECTED" using st by simp
  have res: "?s' = (main_abs_logic ?b pedal s3)
                \<lparr>wheel_data := map clamp_pressure (wheel_data (main_abs_logic ?b pedal s3))\<rparr>"
    using processBraking_no_fault [OF entry nf] by (simp add: Let_def s1_def s3_def)
  let ?wds = "map (detect_wheel s3 pedal) (wheel_data s3)"
  have st4: "current_abs_state (main_abs_logic ?b pedal s3) = INTERVENING"
    using st by (subst (asm) res) simp
  have fl4: "\<exists>wd \<in> set (wheel_data (main_abs_logic ?b pedal s3)). is_locking wd"
  proof -
    from fl obtain wd where "wd \<in> set (wheel_data ?s')" "is_locking wd" by blast
    then have "wd \<in> set (map clamp_pressure (wheel_data (main_abs_logic ?b pedal s3)))"
      by (subst (asm) res) simp
    then show ?thesis using \<open>is_locking wd\<close> by auto
  qed
  have s3_st: "current_abs_state s3 = MONITORING \<or> current_abs_state s3 = INTERVENING"
    using st4 entry
    by (auto simp: main_abs_logic_map s3_def determine_active_def s1_def split: if_splits)
  have any: "\<exists>w \<in> set ?wds. is_locking w"
  proof (rule ccontr)
    assume no: "\<not> (\<exists>w \<in> set ?wds. is_locking w)"
    show False
    proof (cases "current_abs_state s3 = INTERVENING")
      case True
      then have "wheel_data (main_abs_logic ?b pedal s3) = map (recover_wheel pedal) ?wds"
        using no by (simp add: main_abs_logic_map Let_def)
      with fl4 no show False by auto
    next
      case False
      then have "current_abs_state (main_abs_logic ?b pedal s3) \<noteq> INTERVENING"
        using no s3_st by (simp add: main_abs_logic_map Let_def)
      with st4 show False by simp
    qed
  qed
  have m: "main_abs_logic ?b pedal s3 =
     s3\<lparr>current_abs_state := INTERVENING, cycles_since_last_intervention := 0,
        wheel_data := map (intervene_wheel s3 pedal) ?wds\<rparr>"
    using any s3_st by (simp only: main_abs_logic_map Let_def if_True)
  have wd3: "wheel_data s3 = wheel_data s1" by (simp add: s3_def)
  show "wheel_data ?s' = map (clamp_pressure \<circ> intervene_wheel s3 pedal \<circ> detect_wheel s3 pedal)
                            (wheel_data s1)"
    by (subst res) (simp add: m wd3)
  show "cycles_since_last_intervention ?s' = 0"
    by (subst res) (simp add: m)
  show "vehicle_reference_speed_kmh ?s' = vehicle_reference_speed_kmh s1"
    by (subst res) (simp add: s3_def)
  show "vehicle_reference_speed_kmh s3 = vehicle_reference_speed_kmh s1"
    by (simp add: s3_def)
  show "(current_abs_state s3 = INTERVENING) = (current_abs_state s = INTERVENING)"
    using s3_st by (auto simp: s3_def s1_def determine_active_def split: if_splits)
  from any obtain w where "w \<in> set (wheel_data s3)" "is_locking (detect_wheel s3 pedal w)"
    by auto
  then have "5 \<le> vehicle_reference_speed_kmh s3"
    by (auto simp: detect_wheel_flag dest: detect_needs_speed)
  then show "5 \<le> vehicle_reference_speed_kmh s1" by (simp add: s3_def)
qed

subsection \<open>Clean cycles while intervening\<close>

lemma clean_cycle_step:
  assumes st: "current_abs_state s = INTERVENING"
    and cl: "clean_cycle (vs, sds, pedal) s"
  shows "current_abs_state (processBraking vs sds pedal s)
           = (if cycles_since_last_intervention s + 1 > 10 then MONITORING else INTERVENING)"
    and "cycles_since_last_intervention (processBraking vs sds pedal s)
           = (if cycles_since_last_intervention s + 1 > 10 then 0
              else cycles_since_last_intervention s + 1)"
proof -
  let ?s' = "processBraking vs sds pedal s"
  let ?s1 = "updateVehicleReferenceSpeed sds (vehicle_speed_kmh vs) s"
  let ?b = "vehicle_reference_speed_kmh ?s1 > 10 \<and> pedal > 20"
  let ?s3 = "determine_active ?b ?s1"
  let ?s4 = "main_abs_logic ?b pedal ?s3"
  from cl have nf: "current_abs_state ?s' \<noteq> FAULT_DETECTED"
    and ref: "vehicle_reference_speed_kmh ?s' > 10" and pedal: "pedal > 20"
    and nolock: "\<forall>wd \<in> set (wheel_data ?s'). \<not> is_locking wd"
    by (simp_all add: clean_cycle_def Let_def list_all_iff)
  have res: "?s' = ?s4\<lparr>wheel_data := map clamp_pressure (wheel_data ?s4)\<rparr>"
    using processBraking_no_fault [OF _ _ nf] st by (simp add: Let_def)
  have "vehicle_reference_speed_kmh ?s' = vehicle_reference_speed_kmh ?s1"
    by (subst res) simp
  then have b: "?b" using ref pedal by simp
  have s3: "?s3 = ?s1" "current_abs_state ?s1 = INTERVENING"
    using b st by (simp_all add: determine_active_def)
  let ?wds = "map (detect_wheel ?s1 pedal) (wheel_data ?s1)"
  have no_any: "\<not> (\<exists>w \<in> set ?wds. is_locking w)"
  proof
    assume any: "\<exists>w \<in> set ?wds. is_locking w"
    then have "wheel_data ?s4 = map (intervene_wheel ?s1 pedal) ?wds"
      using s3 by (simp add: main_abs_logic_map Let_def)
    then have "wheel_data ?s' = map clamp_pressure (map (intervene_wheel ?s1 pedal) ?wds)"
      by (subst res) simp
    with any have "\<exists>wd \<in> set (wheel_data ?s'). is_locking wd"
      by auto
    with nolock show False by blast
  qed
  have m: "?s4 = (if cycles_since_last_intervention ?s1 + 1 > 10
               then ?s1\<lparr>current_abs_state := (if ?b then MONITORING else INACTIVE),
                      cycles_since_last_intervention := 0,
                      wheel_data := map (recover_wheel pedal) ?wds\<rparr>
               else ?s1\<lparr>cycles_since_last_intervention := cycles_since_last_intervention ?s1 + 1,
                      wheel_data := map (recover_wheel pedal) ?wds\<rparr>)"
    using no_any s3 by (simp add: main_abs_logic_map Let_def)
  show "current_abs_state ?s'
           = (if cycles_since_last_intervention s + 1 > 10 then MONITORING else INTERVENING)"
    by (subst res, subst m) (use b s3(2) in simp)
  show "cycles_since_last_intervention ?s'
           = (if cycles_since_last_intervention s + 1 > 10 then 0
              else cycles_since_last_intervention s + 1)"
    by (subst res, subst m) simp
qed

lemma run_cycles_append: "run_cycles (xs @ ys) s = run_cycles ys (run_cycles xs s)"
  by (induction xs arbitrary: s) auto

lemma clean_run_append:
  "clean_run (xs @ ys) s = (clean_run xs s \<and> clean_run ys (run_cycles xs s))"
proof (induction xs arbitrary: s)
  case Nil
  show ?case by simp
next
  case (Cons x xs)
  obtain vs sds pedal where x: "x = (vs, sds, pedal)" by (cases x)
  show ?case by (simp add: x Cons.IH)
qed

text \<open>While the counter has not passed 10, each clean cycle adds one to it.\<close>

lemma clean_run_counts:
  assumes "current_abs_state s = INTERVENING" "clean_run inputs s"
    "cycles_since_last_intervention s + int (length inputs) \<le> 10"
  shows "current_abs_state (run_cycles inputs s) = INTERVENING
       \<and> cycles_since_last_intervention (run_cycles inputs s)
           = cycles_since_last_intervention s + int (length inputs)"
  using assms
proof (induction inputs arbitrary: s)
  case Nil
  then show ?case by simp
next
  case (Cons inp inputs)
  obtain vs sds pedal where inp: "inp = (vs, sds, pedal)" by (cases inp)
  let ?s' = "processBraking vs sds pedal s"
  have cl: "clean_cycle (vs, sds, pedal) s" and rest: "clean_run inputs ?s'"
    using Cons.prems(2) inp by simp_all
  have small: "\<not> cycles_since_last_intervention s + 1 > 10"
    using Cons.prems(3) by simp
  have st': "current_abs_state ?s' = INTERVENING"
    and c': "cycles_since_last_intervention ?s' = cycles_since_last_intervention s + 1"
    using clean_cycle_step [OF Cons.prems(1) cl] small by simp_all
  have "cycles_since_last_intervention ?s' + int (length inputs) \<le> 10"
    using Cons.prems(3) c' by simp
  from Cons.IH [OF st' rest this] show ?case
    using inp c' by simp
qed

subsection \<open>The reference speed in terms of the valid readings\<close>

lemma fold_max_Max: "fold max vs (c::real) = Max (insert c (set vs))"
proof -
  have "fold max vs c = Max (set (c # vs))" by (simp only: Max.set_eq_fold)
  then show ?thesis by simp
qed

lemma valid_readings_nonneg: "v \<in> set (valid_readings sds) \<Longrightarrow> 0 \<le> v"
  by (auto simp: valid_readings_def)

lemma fold_max_valid:
  assumes "valid_readings sds \<noteq> []"
  shows "fold max (valid_readings sds) 0 = Max (set (valid_readings sds))"
proof -
  let ?V = "set (valid_readings sds)"
  have ne: "?V \<noteq> {}" using assms by simp
  obtain v where v: "v \<in> ?V" using assms by (cases "valid_readings sds") auto
  have "0 \<le> v" using v by (rule valid_readings_nonneg)
  also have "v \<le> Max ?V" using v by simp
  finally have "0 \<le> Max ?V" .
  then show ?thesis using ne by (simp add: fold_max_Max max_def)
qed

lemma update_ref:
  "vehicle_reference_speed_kmh (updateVehicleReferenceSpeed sds hint s) =
     (let vs = valid_readings (take (length (wheel_data s)) sds)
      in if vs = [] then 0 else min (spec_reference_estimate vs hint) 300)"
proof -
  let ?vs = "valid_readings (take (length (wheel_data s)) sds)"
  obtain wd sm vc mx where loop: "speed_loop sds (wheel_data s) 0 0 0 = (wd, sm, vc, mx)"
    by (metis prod_cases4)
  from speed_loop_acc [of sds "wheel_data s" 0 0 0] loop
  have acc: "sm = sum_list ?vs" "vc = int (length ?vs)" "mx = fold max ?vs 0"
    by simp_all
  show ?thesis
  proof (cases "?vs = []")
    case True
    then show ?thesis
      by (simp add: updateVehicleReferenceSpeed_def loop acc)
  next
    case False
    then have mx: "mx = Max (set ?vs)" using acc fold_max_valid by simp
    from False have pos: "0 < int (length ?vs)" by simp
    show ?thesis using False pos
      by (simp add: updateVehicleReferenceSpeed_def loop acc(1,2) mx
            spec_reference_estimate_def Let_def)
  qed
qed

lemma spec_estimate_nonneg:
  assumes "vs \<noteq> []" "\<forall>v \<in> set vs. 0 \<le> v"
  shows "0 \<le> spec_reference_estimate vs hint"
proof -
  have m: "0 \<le> sum_list vs / real (length vs)"
    using assms by (simp add: sum_list_nonneg)
  have "0 \<le> Max (set vs)"
  proof -
    obtain v where "v \<in> set vs" using assms(1) by (cases vs) auto
    then have "0 \<le> v" "v \<le> Max (set vs)" using assms(2) by simp_all
    then show ?thesis by linarith
  qed
  then show ?thesis using m
    by (auto simp: spec_reference_estimate_def Let_def)
qed

subsection \<open>The branch for fault code 30\<close>

lemma check_sensors_count:
  "check_sensors sds i c = Inr n \<Longrightarrow>
     c \<le> n \<and> (n = c \<longrightarrow> (\<forall>sd \<in> set sds. sensor_value sd < - 1))"
proof (induction sds arbitrary: i c)
  case Nil
  then show ?case by simp
next
  case (Cons sd sds)
  let ?c' = "if sensor_value sd \<ge> - 1 then c + 1 else c"
  from Cons.prems have rest: "check_sensors sds (Suc i) ?c' = Inr n"
    by (simp split: if_splits)
  from Cons.IH [OF rest] show ?case
    by (auto split: if_splits)
qed

text \<open>
  When the fault check counts no valid reading, every reading is below -1, so the
  update that ran before it found no reading \<open>\<ge> 0\<close> and stored 0: the guard
  \<^verbatim>\<open>vehicle_reference_speed_kmh_ > 10.0\<close> of the fault-30 branch is then false.
\<close>

lemma all_invalid_resets_reference:
  assumes "check_sensors sds 0 0 = Inr 0"
  shows "vehicle_reference_speed_kmh (updateVehicleReferenceSpeed sds v s) = 0"
    and "checkForSystemFaults sds (updateVehicleReferenceSpeed sds v s)
           = updateVehicleReferenceSpeed sds v s"
proof -
  from check_sensors_count [OF assms] have neg: "\<forall>sd \<in> set sds. sensor_value sd < - 1"
    by simp
  have "valid_readings (take (length (wheel_data s)) sds) = []"
    unfolding valid_readings_def filter_empty_conv
  proof
    fix x assume "x \<in> set (map sensor_value (take (length (wheel_data s)) sds))"
    then obtain sd where "sd \<in> set (take (length (wheel_data s)) sds)" "x = sensor_value sd"
      by auto
    then have "sd \<in> set sds" by (auto dest: in_set_takeD)
    with neg \<open>x = sensor_value sd\<close> show "\<not> 0 \<le> x" by fastforce
  qed
  then show ref: "vehicle_reference_speed_kmh (updateVehicleReferenceSpeed sds v s) = 0"
    by (simp add: update_ref)
  show "checkForSystemFaults sds (updateVehicleReferenceSpeed sds v s)
           = updateVehicleReferenceSpeed sds v s"
    by (simp add: checkForSystemFaults_def assms ref)
qed

subsection \<open>The applied pressures on each path through a cycle\<close>

text \<open>
  The three ways a call of \<^verbatim>\<open>processBraking\<close> can end. Entered in
  FAULT\_DETECTED, it writes the pedal pressure to every wheel as it is. Entered
  in INITIALIZING, or stopped by a fault found in this call, it leaves the
  pressures as they were. Otherwise it runs to the clamp at its end, and every
  pressure is within 0 to 200 bar.
\<close>

lemma processBraking_pressure_paths:
  shows "current_abs_state s = FAULT_DETECTED \<Longrightarrow>
           map applied_brake_pressure_bar (wheel_data (processBraking vs sds pedal s))
             = replicate (length (wheel_data s)) pedal"
    and "current_abs_state s \<noteq> FAULT_DETECTED \<Longrightarrow>
           current_abs_state s = INITIALIZING
             \<or> current_abs_state (processBraking vs sds pedal s) = FAULT_DETECTED \<Longrightarrow>
           map applied_brake_pressure_bar (wheel_data (processBraking vs sds pedal s))
             = map applied_brake_pressure_bar (wheel_data s)"
    and "current_abs_state s \<noteq> FAULT_DETECTED \<Longrightarrow> current_abs_state s \<noteq> INITIALIZING \<Longrightarrow>
           current_abs_state (processBraking vs sds pedal s) \<noteq> FAULT_DETECTED \<Longrightarrow>
           pressures_within_limits (processBraking vs sds pedal s)"
proof -
  let ?s' = "processBraking vs sds pedal s"
  show "map applied_brake_pressure_bar (wheel_data ?s') = replicate (length (wheel_data s)) pedal"
    if "current_abs_state s = FAULT_DETECTED"
    using that by (simp add: processBraking_def comp_def map_replicate_const)
  show "map applied_brake_pressure_bar (wheel_data ?s')
          = map applied_brake_pressure_bar (wheel_data s)"
    if nf: "current_abs_state s \<noteq> FAULT_DETECTED"
      and c: "current_abs_state s = INITIALIZING \<or> current_abs_state ?s' = FAULT_DETECTED"
  proof (cases "current_abs_state s = INITIALIZING")
    case True
    then show ?thesis by (simp add: processBraking_def)
  next
    case False
    with c have "current_abs_state ?s' = FAULT_DETECTED" by simp
    from processBraking_midfault [OF nf False this] show ?thesis
      by (simp add: midfault_pressures)
  qed
  show "pressures_within_limits ?s'"
    if "current_abs_state s \<noteq> FAULT_DETECTED" "current_abs_state s \<noteq> INITIALIZING"
       "current_abs_state ?s' \<noteq> FAULT_DETECTED"
  proof -
    from processBraking_complete [OF that]
    obtain wds where "wheel_data ?s' = map clamp_pressure wds" by blast
    then show ?thesis
      by (simp add: pressures_within_limits_def list_all_iff limit_bar_def)
  qed
qed

section \<open>Properties\<close>

subsection \<open>Pressure limits\<close>

text \<open>
  C1. The claim (after every call of \<^verbatim>\<open>processBraking\<close>, from every state
  and for every pedal input, each wheel's applied pressure lies within 0 to 200
  bar) is what the source says of itself: the loop that ends the function is
  headed \<^verbatim>\<open>Ensure all applied pressures are within physical limits\<close>, and the
  pass-through of the INACTIVE state runs into that loop. The pass-through of
  the FAULT\_DETECTED state writes the same pedal pressure and returns before
  the loop. Evaluated here on a controller in FAULT\_DETECTED with 250 bar on
  the pedal: every wheel is left at 250 bar, above the limit.
\<close>

theorem fault_pass_through_exceeds_limit:
  "map applied_brake_pressure_bar (wheel_data (processBraking (vehicle_at 50)
        [sensor 0 50, sensor 1 50, sensor 2 50, sensor 3 50] 250
        (controller FAULT_DETECTED wheels_at_rest 0 0 22))) = [250, 250, 250, 250]
   \<and> \<not> pressures_within_limits (processBraking (vehicle_at 50)
        [sensor 0 50, sensor 1 50, sensor 2 50, sensor 3 50] 250
        (controller FAULT_DETECTED wheels_at_rest 0 0 22))"
  by (simp add: ex_defs processBraking_def pass_through_def pressures_within_limits_def)

subsection \<open>A gross out-of-range reading\<close>

text \<open>
  C2, as amended. The claim as written says that after a batch whose reading
  at index 2 is 400 km/h every wheel holds the pedal pressure of that call. The
  call stops at the fault check and writes no pressure. What holds: when the
  call is entered in a state other than FAULT\_DETECTED and INITIALIZING, the
  readings at indices 0 and 1 carry their own indices and lie within -10 to 350
  km/h, and the reading at index 2 carries index 2 and is 400 km/h, the call
  returns in FAULT\_DETECTED with fault code 22 and every wheel's applied
  pressure is what it was before the call.
\<close>

theorem out_of_range_fault_keeps_pressures:
  assumes "current_abs_state s \<noteq> FAULT_DETECTED" "current_abs_state s \<noteq> INITIALIZING"
    and "sensor_id sd0 = 0" "- 10 \<le> sensor_value sd0" "sensor_value sd0 \<le> 350"
    and "sensor_id sd1 = 1" "- 10 \<le> sensor_value sd1" "sensor_value sd1 \<le> 350"
    and "sensor_id sd2 = 2" "sensor_value sd2 = 400"
  shows "current_abs_state (processBraking vs (sd0 # sd1 # sd2 # rest) pedal s) = FAULT_DETECTED
       \<and> fault_code (processBraking vs (sd0 # sd1 # sd2 # rest) pedal s) = 22
       \<and> map applied_brake_pressure_bar
             (wheel_data (processBraking vs (sd0 # sd1 # sd2 # rest) pedal s))
           = map applied_brake_pressure_bar (wheel_data s)"
proof -
  let ?sds = "sd0 # sd1 # sd2 # rest"
  let ?s1 = "updateVehicleReferenceSpeed ?sds (vehicle_speed_kmh vs) s"
  have chk: "check_sensors ?sds 0 0 = Inl 22"
    using assms by simp
  have s2: "checkForSystemFaults ?sds ?s1
              = ?s1\<lparr>current_abs_state := FAULT_DETECTED, fault_code := 22\<rparr>"
    by (simp only: checkForSystemFaults_def chk sum.case)
  have res: "processBraking vs ?sds pedal s = checkForSystemFaults ?sds ?s1"
    using assms(1,2) by (simp add: processBraking_def Let_def s2)
  show ?thesis
    by (simp add: res midfault_pressures) (simp add: s2)
qed

theorem out_of_range_fault_keeps_pressures_witness:
  "(current_abs_state (controller INACTIVE wheels_at_rest 0 0 0) \<noteq> FAULT_DETECTED
    \<and> current_abs_state (controller INACTIVE wheels_at_rest 0 0 0) \<noteq> INITIALIZING
    \<and> sensor_id (sensor 0 50) = 0 \<and> - 10 \<le> sensor_value (sensor 0 50)
    \<and> sensor_value (sensor 0 50) \<le> 350
    \<and> sensor_id (sensor 1 50) = 1 \<and> - 10 \<le> sensor_value (sensor 1 50)
    \<and> sensor_value (sensor 1 50) \<le> 350
    \<and> sensor_id (sensor 2 400) = 2 \<and> sensor_value (sensor 2 400) = 400)
   \<and> current_abs_state (processBraking (vehicle_at 50)
         [sensor 0 50, sensor 1 50, sensor 2 400, sensor 3 50] 30
         (controller INACTIVE wheels_at_rest 0 0 0)) = FAULT_DETECTED
   \<and> fault_code (processBraking (vehicle_at 50)
         [sensor 0 50, sensor 1 50, sensor 2 400, sensor 3 50] 30
         (controller INACTIVE wheels_at_rest 0 0 0)) = 22
   \<and> map applied_brake_pressure_bar (wheel_data (processBraking (vehicle_at 50)
         [sensor 0 50, sensor 1 50, sensor 2 400, sensor 3 50] 30
         (controller INACTIVE wheels_at_rest 0 0 0))) = [0, 0, 0, 0]"
proof -
  have h: "current_abs_state (controller INACTIVE wheels_at_rest 0 0 0) \<noteq> FAULT_DETECTED"
    "current_abs_state (controller INACTIVE wheels_at_rest 0 0 0) \<noteq> INITIALIZING"
    "sensor_id (sensor 0 50) = 0" "- 10 \<le> sensor_value (sensor 0 50)"
    "sensor_value (sensor 0 50) \<le> 350"
    "sensor_id (sensor 1 50) = 1" "- 10 \<le> sensor_value (sensor 1 50)"
    "sensor_value (sensor 1 50) \<le> 350"
    "sensor_id (sensor 2 400) = 2" "sensor_value (sensor 2 400) = 400"
    by (simp_all add: controller_def sensor_def)
  have p: "map applied_brake_pressure_bar (wheel_data (controller INACTIVE wheels_at_rest 0 0 0))
             = [0, 0, 0, 0]"
    by (simp add: ex_defs)
  show ?thesis
    using h out_of_range_fault_keeps_pressures [OF h, of "vehicle_at 50" "[sensor 3 50]" 30]
    by (simp add: p)
qed

text \<open>
  The input at which C2 as written fails: an inactive controller with all
  wheels at 0 bar, a well-formed batch with 400 km/h at index 2, and 30 bar on
  the pedal. The fault is raised with code 22, and the wheels stay at 0 bar.
\<close>

theorem out_of_range_fault_without_pass_through:
  "current_abs_state (processBraking (vehicle_at 50)
         [sensor 0 50, sensor 1 50, sensor 2 400, sensor 3 50] 30
         (controller INACTIVE wheels_at_rest 0 0 0)) = FAULT_DETECTED
   \<and> fault_code (processBraking (vehicle_at 50)
         [sensor 0 50, sensor 1 50, sensor 2 400, sensor 3 50] 30
         (controller INACTIVE wheels_at_rest 0 0 0)) = 22
   \<and> map applied_brake_pressure_bar (wheel_data (processBraking (vehicle_at 50)
         [sensor 0 50, sensor 1 50, sensor 2 400, sensor 3 50] 30
         (controller INACTIVE wheels_at_rest 0 0 0))) = [0, 0, 0, 0]
   \<and> [0, 0, 0, 0] \<noteq> [30, 30, 30, 30 :: real]"
  by (simp add: ex_defs step_defs Let_def)

subsection \<open>Pressures in a cycle that flags a wheel\<close>

text \<open>
  C3, as amended. The claim as written has every wheel whose slip exceeds 15%
  released by 50 bar, flagged or not. \<^verbatim>\<open>modulateBrakePressure\<close> releases only a
  flagged wheel; a wheel that is not flagged and slips by more than 15% is
  slower than 95% of the reference speed, so its pressure is held. What holds,
  for a call in which the detector flags at least one wheel (the call returns
  in INTERVENING with some wheel flagged), and for each wheel:
  a wheel flagged in this call ends at its held pressure less 50 bar, floored at
  0 and cut to 200; a wheel not flagged whose slip exceeds 15% ends at its held
  pressure cut to the limits 0 to 200; every other wheel ends at the pedal
  pressure cut to the limits. The held pressure is the pedal pressure, except
  for a wheel that was already flagged on entry in INTERVENING, where it is the
  pressure the wheel had on entry. The counter is 0 after the call.
\<close>

theorem intervention_cycle_pressures:
  assumes "current_abs_state (processBraking vs sds pedal s) = INTERVENING"
    and "\<exists>wd \<in> set (wheel_data (processBraking vs sds pedal s)). is_locking wd"
    and "i < length (wheel_data s)"
  shows "applied_brake_pressure_bar (wheel_data (processBraking vs sds pedal s) ! i) =
     (let held = (if current_abs_state s = INTERVENING \<and> is_locking (wheel_data s ! i)
                  then applied_brake_pressure_bar (wheel_data s ! i) else pedal);
          ref = vehicle_reference_speed_kmh (processBraking vs sds pedal s);
          wd' = wheel_data (processBraking vs sds pedal s) ! i
      in if is_locking wd' then limit_bar (max 0 (held - 50))
         else if ref - speed_kmh wd' > ref * 0.15 then limit_bar held
         else limit_bar pedal)
     \<and> cycles_since_last_intervention (processBraking vs sds pedal s) = 0"
proof -
  let ?s' = "processBraking vs sds pedal s"
  let ?s1 = "updateVehicleReferenceSpeed sds (vehicle_speed_kmh vs) s"
  let ?s3 = "determine_active (vehicle_reference_speed_kmh ?s1 > 10 \<and> pedal > 20) ?s1"
  note shape = intervention_cycle_shape [OF assms(1,2)]
  let ?w1 = "wheel_data ?s1 ! i"
  let ?w2 = "detect_wheel ?s3 pedal ?w1"
  have i1: "i < length (wheel_data ?s1)"
    using assms(3) by (simp add: update_wheels speed_loop_length)
  have w': "wheel_data ?s' ! i = clamp_pressure (intervene_wheel ?s3 pedal ?w2)"
    using i1 by (simp add: shape(1))
  have old: "is_locking ?w1 = is_locking (wheel_data s ! i)"
    "applied_brake_pressure_bar ?w1 = applied_brake_pressure_bar (wheel_data s ! i)"
    using assms(3) by (simp_all add: update_wheels speed_loop_nth)
  have pos: "0 < vehicle_reference_speed_kmh ?s3"
    using shape(4,6) by simp
  have "applied_brake_pressure_bar (wheel_data ?s' ! i)
          = limit_bar (applied_brake_pressure_bar (intervene_wheel ?s3 pedal ?w2))"
    by (simp add: w')
  also have "\<dots> =
     (if is_locking ?w2 then limit_bar (max 0 (applied_brake_pressure_bar ?w2 - 50))
      else if vehicle_reference_speed_kmh ?s3 - speed_kmh ?w2
                > vehicle_reference_speed_kmh ?s3 * 0.15
      then limit_bar (applied_brake_pressure_bar ?w2)
      else limit_bar pedal)"
    by (simp add: intervene_wheel_pressure [OF pos])
  finally have main: "applied_brake_pressure_bar (wheel_data ?s' ! i) =
     (if is_locking ?w2 then limit_bar (max 0 (applied_brake_pressure_bar ?w2 - 50))
      else if vehicle_reference_speed_kmh ?s3 - speed_kmh ?w2
                > vehicle_reference_speed_kmh ?s3 * 0.15
      then limit_bar (applied_brake_pressure_bar ?w2)
      else limit_bar pedal)" .
  have held: "applied_brake_pressure_bar ?w2 =
      (if current_abs_state s = INTERVENING \<and> is_locking (wheel_data s ! i)
       then applied_brake_pressure_bar (wheel_data s ! i) else pedal)"
    by (simp add: shape(5) old)
  have fl: "is_locking (wheel_data ?s' ! i) = is_locking ?w2"
    and sp: "speed_kmh (wheel_data ?s' ! i) = speed_kmh ?w2"
    by (simp_all add: w')
  have rf: "vehicle_reference_speed_kmh ?s' = vehicle_reference_speed_kmh ?s3"
    by (simp add: shape(3,4))
  show ?thesis
    unfolding Let_def fl sp rf
    using main held shape(2) by simp
qed

theorem intervention_cycle_pressures_witness:
  "current_abs_state (processBraking (vehicle_at 0) braking_sensors 100
       (controller MONITORING braking_wheels 90 0 0)) = INTERVENING
   \<and> map is_locking (wheel_data (processBraking (vehicle_at 0) braking_sensors 100
       (controller MONITORING braking_wheels 90 0 0))) = [False, False, False, True]
   \<and> (3::nat) < length (wheel_data (controller MONITORING braking_wheels 90 0 0))
   \<and> applied_brake_pressure_bar (wheel_data (processBraking (vehicle_at 0) braking_sensors 100
       (controller MONITORING braking_wheels 90 0 0)) ! 3) = 50
   \<and> cycles_since_last_intervention (processBraking (vehicle_at 0) braking_sensors 100
       (controller MONITORING braking_wheels 90 0 0)) = 0"
proof -
  let ?s = "controller MONITORING braking_wheels 90 0 0"
  let ?s' = "processBraking (vehicle_at 0) braking_sensors 100 ?s"
  have ev: "?s' = controller INTERVENING [wheel 0 100 False 100, wheel 1 100 False 100,
          wheel 2 70 False 100, wheel 3 0 True 50] (335 / 4) 0 0"
    by (simp add: ex_defs braking_wheels_def braking_sensors_def step_defs Let_def)
  have h1: "current_abs_state ?s' = INTERVENING"
    by (simp add: ev) (simp add: controller_def)
  have fl: "map is_locking (wheel_data ?s') = [False, False, False, True]"
    by (simp add: ev) (simp add: ex_defs)
  have h2: "\<exists>wd \<in> set (wheel_data ?s'). is_locking wd"
    by (simp add: ev) (simp add: ex_defs)
  have h3: "(3::nat) < length (wheel_data ?s)"
    by (simp add: ex_defs braking_wheels_def)
  show ?thesis
    using h1 fl h3 intervention_cycle_pressures [OF h1 h2 h3]
    by (simp add: ev) (simp add: ex_defs braking_wheels_def limit_bar_def)
qed

text \<open>
  The input at which C3 as written fails: monitoring at 100 bar on the pedal,
  the wheels having held 80 bar; wheel 3 reads 0 km/h and is flagged; wheel 2
  reads 70 km/h against a reference of 83.75 km/h, a slip of 13.75 km/h, more
  than 15% of the reference (12.5625), and it is not flagged. Wheel 2 ends at
  100 bar, the pedal pressure; a release by 50 bar would leave 50 (or 30, from
  the 80 bar it held).
\<close>

theorem slipping_wheel_is_held_not_released:
  "is_locking (wheel_data (processBraking (vehicle_at 0) braking_sensors 100
       (controller MONITORING braking_wheels 90 0 0)) ! 3)
   \<and> \<not> is_locking (wheel_data (processBraking (vehicle_at 0) braking_sensors 100
       (controller MONITORING braking_wheels 90 0 0)) ! 2)
   \<and> vehicle_reference_speed_kmh (processBraking (vehicle_at 0) braking_sensors 100
       (controller MONITORING braking_wheels 90 0 0)) = 335 / 4
   \<and> speed_kmh (wheel_data (processBraking (vehicle_at 0) braking_sensors 100
       (controller MONITORING braking_wheels 90 0 0)) ! 2) = 70
   \<and> (335 / 4 - 70 :: real) > 335 / 4 * 0.15
   \<and> applied_brake_pressure_bar (wheel_data (processBraking (vehicle_at 0) braking_sensors 100
       (controller MONITORING braking_wheels 90 0 0)) ! 2) = 100"
  by (simp add: ex_defs braking_wheels_def braking_sensors_def step_defs Let_def)

subsection \<open>All four readings invalid\<close>

text \<open>
  C4. The claim (a cycle whose four readings are all invalid sets the reference
  speed to 0 and ends in FAULT\_DETECTED with fault code 30) fails on the code:
  \<^verbatim>\<open>updateVehicleReferenceSpeed\<close> runs before \<^verbatim>\<open>checkForSystemFaults\<close> and has
  already set the reference speed to 0, so the guard \<^verbatim>\<open>vehicle_reference_speed_kmh_ > 10\<close>
  in front of the fault-30 branch is false (\<open>all_invalid_resets_reference\<close>
  above, for every batch). Evaluated here on a controller
  monitoring at 50 km/h that receives four readings of -5 km/h: the reference
  speed falls to 0, the state becomes INACTIVE and the fault code stays 0.
\<close>

theorem all_sensors_invalid_raises_no_fault:
  "vehicle_reference_speed_kmh (processBraking (vehicle_at 50)
       [sensor 0 (- 5), sensor 1 (- 5), sensor 2 (- 5), sensor 3 (- 5)] 30
       (controller MONITORING wheels_at_rest 50 0 0)) = 0
   \<and> current_abs_state (processBraking (vehicle_at 50)
       [sensor 0 (- 5), sensor 1 (- 5), sensor 2 (- 5), sensor 3 (- 5)] 30
       (controller MONITORING wheels_at_rest 50 0 0)) = INACTIVE
   \<and> fault_code (processBraking (vehicle_at 50)
       [sensor 0 (- 5), sensor 1 (- 5), sensor 2 (- 5), sensor 3 (- 5)] 30
       (controller MONITORING wheels_at_rest 50 0 0)) = 0"
  by (simp add: ex_defs step_defs Let_def)

subsection \<open>The fault state is sticky\<close>

text \<open>
  C5. A call of \<^verbatim>\<open>processBraking\<close> entered in FAULT\_DETECTED changes nothing
  but the wheels' applied pressures, each of which becomes the raw pedal input;
  the state stays FAULT\_DETECTED and the fault code stays what it was, after
  one call and after any run of calls. \<^verbatim>\<open>processBraking\<close> never clears the
  fault; \<^verbatim>\<open>runDiagnostics\<close> does, when both of its checks pass.
\<close>

theorem fault_detected_is_sticky:
  assumes "current_abs_state s = FAULT_DETECTED"
  shows "processBraking vs sds pedal s
           = s\<lparr>wheel_data := map (pass_through pedal) (wheel_data s)\<rparr>
         \<and> map applied_brake_pressure_bar (wheel_data (processBraking vs sds pedal s))
             = replicate (length (wheel_data s)) pedal
         \<and> current_abs_state (processBraking vs sds pedal s) = FAULT_DETECTED
         \<and> fault_code (processBraking vs sds pedal s) = fault_code s
         \<and> current_abs_state (run_cycles inputs s) = FAULT_DETECTED
         \<and> fault_code (run_cycles inputs s) = fault_code s
         \<and> (rand_draws 0 mod 100 > 2 \<and> rand_draws 1 mod 100 > 3
              \<longrightarrow> current_abs_state (runDiagnostics rand_draws s) = INACTIVE
                  \<and> fault_code (runDiagnostics rand_draws s) = 0)"
proof -
  have a: "processBraking vs sds pedal s
           = s\<lparr>wheel_data := map (pass_through pedal) (wheel_data s)\<rparr>"
    using assms by (simp add: processBraking_def)
  have b: "map (applied_brake_pressure_bar \<circ> pass_through pedal) wds
             = replicate (length wds) pedal" for wds
    by (induction wds) (simp_all add: pass_through_def)
  have c: "rand_draws 0 mod 100 > 2 \<and> rand_draws 1 mod 100 > 3
              \<longrightarrow> current_abs_state (runDiagnostics rand_draws s) = INACTIVE
                  \<and> fault_code (runDiagnostics rand_draws s) = 0"
    by (simp add: runDiagnostics_def Let_def)
  show ?thesis
    using run_cycles_fault [OF assms, of inputs] c assms
    by (simp add: a b)
qed

theorem fault_detected_is_sticky_witness:
  "current_abs_state (controller FAULT_DETECTED wheels_at_rest 0 0 22) = FAULT_DETECTED
   \<and> ((\<lambda>k. 50) (0::nat) mod 100 > (2::nat) \<and> (\<lambda>k. 50) (1::nat) mod 100 > (3::nat))
   \<and> map applied_brake_pressure_bar (wheel_data (processBraking (vehicle_at 50)
          [sensor 0 50, sensor 1 50, sensor 2 50, sensor 3 50] 80
          (controller FAULT_DETECTED wheels_at_rest 0 0 22))) = [80, 80, 80, 80]
   \<and> current_abs_state (processBraking (vehicle_at 50)
          [sensor 0 50, sensor 1 50, sensor 2 50, sensor 3 50] 80
          (controller FAULT_DETECTED wheels_at_rest 0 0 22)) = FAULT_DETECTED
   \<and> fault_code (processBraking (vehicle_at 50)
          [sensor 0 50, sensor 1 50, sensor 2 50, sensor 3 50] 80
          (controller FAULT_DETECTED wheels_at_rest 0 0 22)) = 22
   \<and> current_abs_state (runDiagnostics (\<lambda>k. 50)
          (controller FAULT_DETECTED wheels_at_rest 0 0 22)) = INACTIVE"
proof -
  have h: "current_abs_state (controller FAULT_DETECTED wheels_at_rest 0 0 22) = FAULT_DETECTED"
    by (simp add: controller_def)
  show ?thesis
    using h fault_detected_is_sticky [OF h, of "vehicle_at 50"
        "[sensor 0 50, sensor 1 50, sensor 2 50, sensor 3 50]" 80 "[]" "\<lambda>k. 50"]
    by (simp add: ex_defs pass_through_def)
qed

subsection \<open>Hysteresis on leaving the intervention\<close>

text \<open>
  C6. A run of clean cycles starts in INTERVENING with the counter at 0, where
  the last cycle that flagged a wheel has left it. Over eleven consecutive
  clean cycles (no fault, no wheel flagged, reference speed above 10 km/h and
  pedal above 20 bar in each) the counter goes up by one per cycle and the
  state stays INTERVENING through the tenth; the eleventh leaves INTERVENING
  for MONITORING and resets the counter to 0.
\<close>

theorem hysteresis_exit_on_11th_clean_cycle:
  assumes "current_abs_state s = INTERVENING"
    and "cycles_since_last_intervention s = 0"
    and "length inputs = 11"
    and "clean_run inputs s"
  shows "(\<forall>k \<le> 10. current_abs_state (run_cycles (take k inputs) s) = INTERVENING
                 \<and> cycles_since_last_intervention (run_cycles (take k inputs) s) = int k)
       \<and> current_abs_state (run_cycles inputs s) = MONITORING
       \<and> cycles_since_last_intervention (run_cycles inputs s) = 0"
proof -
  have prefix: "current_abs_state (run_cycles (take k inputs) s) = INTERVENING
                 \<and> cycles_since_last_intervention (run_cycles (take k inputs) s) = int k"
    if k: "k \<le> 10" for k
  proof -
    have "clean_run (take k inputs @ drop k inputs) s" using assms(4) by simp
    then have cl: "clean_run (take k inputs) s" by (simp only: clean_run_append)
    have len: "length (take k inputs) = k" using k assms(3) by simp
    have "cycles_since_last_intervention s + int (length (take k inputs)) \<le> 10"
      using k assms(2) len by simp
    from clean_run_counts [OF assms(1) cl this] show ?thesis
      using assms(2) len by simp
  qed
  let ?s10 = "run_cycles (take 10 inputs) s"
  obtain vs sds pedal where last: "drop 10 inputs = [(vs, sds, pedal)]"
  proof -
    have "length (drop 10 inputs) = 1" using assms(3) by simp
    then obtain x where "drop 10 inputs = [x]"
      by (cases "drop 10 inputs") auto
    then show ?thesis using that by (cases x) auto
  qed
  have split: "inputs = take 10 inputs @ [(vs, sds, pedal)]"
    using last by (metis append_take_drop_id)
  have "clean_run (take 10 inputs @ [(vs, sds, pedal)]) s"
    using assms(4) split by simp
  then have cl: "clean_cycle (vs, sds, pedal) ?s10"
    by (simp add: clean_run_append)
  have st10: "current_abs_state ?s10 = INTERVENING"
    and c10: "cycles_since_last_intervention ?s10 = 10"
    using prefix [of 10] by simp_all
  have run: "run_cycles inputs s = processBraking vs sds pedal ?s10"
    by (subst split) (simp add: run_cycles_append)
  have "current_abs_state (processBraking vs sds pedal ?s10) = MONITORING"
    "cycles_since_last_intervention (processBraking vs sds pedal ?s10) = 0"
    using clean_cycle_step [OF st10 cl] c10 by simp_all
  then show ?thesis using prefix run by simp
qed

theorem hysteresis_exit_on_11th_clean_cycle_witness:
  "current_abs_state (controller INTERVENING steady_wheels 50 0 0) = INTERVENING
   \<and> cycles_since_last_intervention (controller INTERVENING steady_wheels 50 0 0) = 0
   \<and> length (replicate 11 steady_input) = 11
   \<and> clean_run (replicate 11 steady_input) (controller INTERVENING steady_wheels 50 0 0)
   \<and> current_abs_state (run_cycles (replicate 10 steady_input)
         (controller INTERVENING steady_wheels 50 0 0)) = INTERVENING
   \<and> cycles_since_last_intervention (run_cycles (replicate 10 steady_input)
         (controller INTERVENING steady_wheels 50 0 0)) = 10
   \<and> current_abs_state (run_cycles (replicate 11 steady_input)
         (controller INTERVENING steady_wheels 50 0 0)) = MONITORING
   \<and> cycles_since_last_intervention (run_cycles (replicate 11 steady_input)
         (controller INTERVENING steady_wheels 50 0 0)) = 0"
proof -
  let ?s = "\<lambda>c. controller INTERVENING steady_wheels 50 c 0"
  have step: "processBraking (vehicle_at 50)
                [sensor 0 50, sensor 1 50, sensor 2 50, sensor 3 50] 30 (?s c)
              = (if c + 1 > 10 then controller MONITORING steady_wheels 50 0 0
                 else ?s (c + 1))" for c
    by (simp add: ex_defs steady_wheels_def step_defs Let_def)
  have cyc: "clean_cycle steady_input (?s c)" for c
    unfolding clean_cycle_def steady_input_def prod.case Let_def step
    by (simp add: ex_defs steady_wheels_def)
  have run: "clean_run (replicate n steady_input) (?s c)" if "c + int n \<le> 11" for n c
    using that
  proof (induction n arbitrary: c)
    case 0
    show ?case by simp
  next
    case (Suc n)
    show ?case
    proof (cases n)
      case 0
      then show ?thesis using cyc by simp
    next
      case (Suc m)
      then have "c + 1 \<le> 10" using Suc.prems by simp
      then have "run_cycles [steady_input] (?s c) = ?s (c + 1)"
        by (simp add: steady_input_def step)
      moreover have "clean_run (replicate n steady_input) (?s (c + 1))"
        using Suc.prems by (intro Suc.IH) simp
      ultimately show ?thesis using cyc by simp
    qed
  qed
  have h1: "current_abs_state (?s 0) = INTERVENING" by (simp add: controller_def)
  have h2: "cycles_since_last_intervention (?s 0) = 0" by (simp add: controller_def)
  have h3: "length (replicate 11 steady_input) = 11" by simp
  have h4: "clean_run (replicate 11 steady_input) (?s 0)" by (rule run) simp
  have t: "take 10 (replicate 11 steady_input) = replicate 10 steady_input" by simp
  from hysteresis_exit_on_11th_clean_cycle [OF h1 h2 h3 h4]
  have "current_abs_state (run_cycles (take 10 (replicate 11 steady_input)) (?s 0))
          = INTERVENING
        \<and> cycles_since_last_intervention
            (run_cycles (take 10 (replicate 11 steady_input)) (?s 0)) = int 10"
    and "current_abs_state (run_cycles (replicate 11 steady_input) (?s 0)) = MONITORING"
    and "cycles_since_last_intervention (run_cycles (replicate 11 steady_input) (?s 0)) = 0"
    by blast+
  then show ?thesis using h1 h2 h3 h4 by (simp only: t) simp
qed

subsection \<open>No lockup below 5 km/h\<close>

text \<open>
  C7, as amended. The claim as written ends in: no wheel is flagged in a cycle
  whose reference speed is below 5 km/h. The detector does return false below
  5 km/h, but \<^verbatim>\<open>processBraking\<close> writes the flags only in its detection loop,
  and the loop runs only in MONITORING and INTERVENING; a cycle that drops
  from INTERVENING to INACTIVE leaves the flags of the cycle before. What
  holds: with the reference speed below 5 km/h the detector returns false for
  every wheel and every speed; and a call of \<^verbatim>\<open>processBraking\<close> after which the
  reference speed is below 5 km/h sets no flag: when it is entered in
  MONITORING and not stopped by a fault it clears every wheel's flag, and in
  every other case it leaves every wheel's flag as it was before the call.
\<close>

theorem low_speed_cycle_sets_no_flag:
  "(vehicle_reference_speed_kmh s < 5 \<longrightarrow> \<not> detectWheelLockup s wd deceleration_threshold_g)
   \<and> (vehicle_reference_speed_kmh (processBraking vs sds pedal s) < 5 \<longrightarrow>
        map is_locking (wheel_data (processBraking vs sds pedal s))
          = (if current_abs_state s = MONITORING
                \<and> current_abs_state (processBraking vs sds pedal s) \<noteq> FAULT_DETECTED
             then map (\<lambda>wd. False) (wheel_data s)
             else map is_locking (wheel_data s)))"
proof -
  let ?s' = "processBraking vs sds pedal s"
  have a: "vehicle_reference_speed_kmh s < 5
             \<longrightarrow> \<not> detectWheelLockup s wd deceleration_threshold_g"
    by (simp add: detectWheelLockup_def)
  have b: "map is_locking (wheel_data ?s')
          = (if current_abs_state s = MONITORING \<and> current_abs_state ?s' \<noteq> FAULT_DETECTED
             then map (\<lambda>wd. False) (wheel_data s)
             else map is_locking (wheel_data s))"
    if low: "vehicle_reference_speed_kmh ?s' < 5"
  proof (cases "current_abs_state s = FAULT_DETECTED \<or> current_abs_state s = INITIALIZING")
    case True
    then show ?thesis by (auto simp: processBraking_def comp_def)
  next
    case False
    then have nf: "current_abs_state s \<noteq> FAULT_DETECTED"
      and ni: "current_abs_state s \<noteq> INITIALIZING"
      by simp_all
    let ?s1 = "updateVehicleReferenceSpeed sds (vehicle_speed_kmh vs) s"
    have flags1: "map is_locking (wheel_data ?s1) = map is_locking (wheel_data s)"
      by (simp add: update_wheels speed_loop_flags)
    have len1: "length (wheel_data ?s1) = length (wheel_data s)"
      by (simp add: update_wheels speed_loop_length)
    show ?thesis
    proof (cases "current_abs_state ?s' = FAULT_DETECTED")
      case True
      from processBraking_midfault [OF nf ni True]
      have "wheel_data ?s' = wheel_data ?s1" by (simp add: check_only_state)
      then show ?thesis using True flags1 by simp
    next
      case nf': False
      let ?b = "vehicle_reference_speed_kmh ?s1 > 10 \<and> pedal > 20"
      let ?s3 = "determine_active ?b ?s1"
      let ?s4 = "main_abs_logic ?b pedal ?s3"
      have res: "?s' = ?s4\<lparr>wheel_data := map clamp_pressure (wheel_data ?s4)\<rparr>"
        using processBraking_no_fault [OF nf ni nf'] by (simp add: Let_def)
      have low1: "vehicle_reference_speed_kmh ?s1 < 5"
        using low by (subst (asm) res) simp
      then have nb: "\<not> ?b" by simp
      have low3: "vehicle_reference_speed_kmh ?s3 < 5"
        using low1 by simp
      have st3: "(current_abs_state ?s3 = MONITORING \<or> current_abs_state ?s3 = INTERVENING)
                   = (current_abs_state s = MONITORING)"
        using nb by (auto simp: determine_active_def)
      have fl4: "map is_locking (wheel_data ?s4)
                   = (if current_abs_state s = MONITORING
                      then map (\<lambda>wd. False) (wheel_data ?s1)
                      else map is_locking (wheel_data ?s1))"
        using main_logic_low_speed_flags [OF low3, of ?b pedal] st3 by simp
      have same: "map (\<lambda>wd. False) (wheel_data ?s1) = map (\<lambda>wd. False) (wheel_data s)"
        using len1 by (simp add: map_replicate_const)
      have "map is_locking (wheel_data ?s') = map is_locking (wheel_data ?s4)"
        by (subst res) (simp add: comp_def)
      then show ?thesis
        using fl4 flags1 same nf' by simp
    qed
  qed
  show ?thesis using a b by blast
qed

theorem low_speed_cycle_sets_no_flag_witness:
  "(vehicle_reference_speed_kmh (controller MONITORING wheels_at_rest 3 0 0) < 5
     \<and> vehicle_reference_speed_kmh (processBraking (vehicle_at 3) crawl_sensors 100
          (controller MONITORING wheels_at_rest 3 0 0)) < 5)
   \<and> \<not> detectWheelLockup (controller MONITORING wheels_at_rest 3 0 0) (wheel 3 0 False 100) 1
   \<and> current_abs_state (controller MONITORING wheels_at_rest 3 0 0) = MONITORING
   \<and> current_abs_state (processBraking (vehicle_at 3) crawl_sensors 100
          (controller MONITORING wheels_at_rest 3 0 0)) = INACTIVE
   \<and> map is_locking (wheel_data (processBraking (vehicle_at 3) crawl_sensors 100
          (controller MONITORING wheels_at_rest 3 0 0))) = [False, False, False, False]
   \<and> map applied_brake_pressure_bar (wheel_data (processBraking (vehicle_at 3) crawl_sensors 100
          (controller MONITORING wheels_at_rest 3 0 0))) = [100, 100, 100, 100]"
proof -
  let ?s = "controller MONITORING wheels_at_rest 3 0 0"
  let ?s' = "processBraking (vehicle_at 3) crawl_sensors 100 ?s"
  have ev: "?s' = controller INACTIVE [wheel 0 4 False 100, wheel 1 4 False 100,
          wheel 2 4 False 100, wheel 3 0 False 100] 3 0 0"
    by (simp add: ex_defs crawl_sensors_def step_defs Let_def)
  have h: "vehicle_reference_speed_kmh ?s < 5" "vehicle_reference_speed_kmh ?s' < 5"
    by (simp_all add: ev) (simp_all add: controller_def)
  have st: "current_abs_state ?s = MONITORING" "current_abs_state ?s' = INACTIVE"
    by (simp_all add: ev) (simp_all add: controller_def)
  have p: "map applied_brake_pressure_bar (wheel_data ?s') = [100, 100, 100, 100]"
    by (simp add: ev) (simp add: ex_defs)
  have w: "map (\<lambda>wd. False) (wheel_data ?s) = [False, False, False, False]"
    by (simp add: ex_defs)
  show ?thesis
    using h st p low_speed_cycle_sets_no_flag [of ?s "wheel 3 0 False 100" 1 "vehicle_at 3"
        crawl_sensors 100]
    by (simp add: w)
qed

text \<open>
  The input at which C7 as written fails, reached from a controller fresh out
  of \<^verbatim>\<open>initialize()\<close> in two cycles. The first is hard braking at 100 bar with
  wheel 3 stopped: the controller intervenes and flags wheel 3. In the second
  the readings are 4, 4, 4 and 0 km/h and the reference speed is 3 km/h: the
  controller drops to INACTIVE without running the detection loop, and wheel 3
  is still flagged.
\<close>

theorem stale_flag_below_5_kmh:
  "vehicle_reference_speed_kmh (run_cycles
       [(vehicle_at 0, braking_sensors, 100), (vehicle_at 3, crawl_sensors, 100)]
       (controller INACTIVE wheels_at_rest 0 0 0)) = 3
   \<and> (3::real) < 5
   \<and> current_abs_state (run_cycles
       [(vehicle_at 0, braking_sensors, 100), (vehicle_at 3, crawl_sensors, 100)]
       (controller INACTIVE wheels_at_rest 0 0 0)) = INACTIVE
   \<and> is_locking (wheel_data (run_cycles
       [(vehicle_at 0, braking_sensors, 100), (vehicle_at 3, crawl_sensors, 100)]
       (controller INACTIVE wheels_at_rest 0 0 0)) ! 3)"
proof -
  have c1: "processBraking (vehicle_at 0) braking_sensors 100
              (controller INACTIVE wheels_at_rest 0 0 0)
            = controller INTERVENING [wheel 0 100 False 100, wheel 1 100 False 100,
                wheel 2 70 False 100, wheel 3 0 True 50] (335 / 4) 0 0"
    by (simp add: ex_defs braking_sensors_def step_defs Let_def)
  have c2: "processBraking (vehicle_at 3) crawl_sensors 100
              (controller INTERVENING [wheel 0 100 False 100, wheel 1 100 False 100,
                wheel 2 70 False 100, wheel 3 0 True 50] (335 / 4) 0 0)
            = controller INACTIVE [wheel 0 4 False 100, wheel 1 4 False 100,
                wheel 2 4 False 100, wheel 3 0 True 100] 3 0 0"
    by (simp add: ex_defs crawl_sensors_def step_defs Let_def)
  show ?thesis
    by (simp add: c1 c2) (simp add: ex_defs)
qed

subsection \<open>The reference-speed estimate\<close>

text \<open>
  C8. When at least one of the readings the update looks at (those at the
  indices the controller has wheels for) is valid, that is non-negative, the
  stored reference speed is the estimate of the specification (the mean of the
  valid readings, blended 50/50 with the hint when the hint is present and
  within 20 km/h of the mean, then moved to the midpoint of itself and the
  maximum valid reading when that maximum exceeds it and it exceeds 5 km/h),
  capped at 300 km/h; and it lies within 0 to 300 km/h.
\<close>

theorem reference_speed_estimate:
  assumes "valid_readings (take (length (wheel_data s)) sds) \<noteq> []"
  shows "vehicle_reference_speed_kmh (updateVehicleReferenceSpeed sds hint s)
           = min (spec_reference_estimate
                    (valid_readings (take (length (wheel_data s)) sds)) hint) 300
         \<and> 0 \<le> vehicle_reference_speed_kmh (updateVehicleReferenceSpeed sds hint s)
         \<and> vehicle_reference_speed_kmh (updateVehicleReferenceSpeed sds hint s) \<le> 300"
proof -
  let ?vs = "valid_readings (take (length (wheel_data s)) sds)"
  have eq: "vehicle_reference_speed_kmh (updateVehicleReferenceSpeed sds hint s)
              = min (spec_reference_estimate ?vs hint) 300"
    using assms by (simp add: update_ref Let_def)
  have "0 \<le> spec_reference_estimate ?vs hint"
    using assms by (intro spec_estimate_nonneg) (auto dest: valid_readings_nonneg)
  then show ?thesis by (simp add: eq)
qed

theorem reference_speed_estimate_witness:
  "valid_readings (take (length (wheel_data (controller INACTIVE wheels_at_rest 0 0 0)))
       [sensor 0 60, sensor 1 60, sensor 2 (- 3), sensor 3 90]) = [60, 60, 90]
   \<and> [60, 60, 90] \<noteq> ([] :: real list)
   \<and> spec_reference_estimate [60, 60, 90] 60 = 155 / 2
   \<and> vehicle_reference_speed_kmh (updateVehicleReferenceSpeed
        [sensor 0 60, sensor 1 60, sensor 2 (- 3), sensor 3 90] 60
        (controller INACTIVE wheels_at_rest 0 0 0)) = 155 / 2"
proof -
  have v: "valid_readings (take (length (wheel_data (controller INACTIVE wheels_at_rest 0 0 0)))
       [sensor 0 60, sensor 1 60, sensor 2 (- 3), sensor 3 90]) = [60, 60, 90]"
    by (simp add: ex_defs valid_readings_def)
  have h: "valid_readings (take (length (wheel_data (controller INACTIVE wheels_at_rest 0 0 0)))
       [sensor 0 60, sensor 1 60, sensor 2 (- 3), sensor 3 90]) \<noteq> []"
    by (simp add: v)
  have e: "spec_reference_estimate [60, 60, 90] 60 = 155 / 2"
    by (simp add: spec_reference_estimate_def Let_def)
  show ?thesis
    using reference_speed_estimate [OF h, of 60] by (simp add: v e)
qed

subsection \<open>Diagnostics end in one of two states\<close>

text \<open>
  C9. Whatever \<^verbatim>\<open>rand()\<close> returns during a call of \<^verbatim>\<open>runDiagnostics\<close>, and whatever
  the state was before: when both checks pass the controller is left INACTIVE
  with fault code 0; when one fails it is left in FAULT\_DETECTED with a fault
  code that is not 0 (one of 50 to 53 for the sensors, 70 for the actuator).
  No other state is left behind. The wheels are not touched.
\<close>

theorem runDiagnostics_outcome:
  "(rand_draws 0 mod 100 > 2 \<and> rand_draws 1 mod 100 > 3
      \<longrightarrow> current_abs_state (runDiagnostics rand_draws s) = INACTIVE
          \<and> fault_code (runDiagnostics rand_draws s) = 0)
   \<and> (\<not> (rand_draws 0 mod 100 > 2 \<and> rand_draws 1 mod 100 > 3)
      \<longrightarrow> current_abs_state (runDiagnostics rand_draws s) = FAULT_DETECTED
          \<and> fault_code (runDiagnostics rand_draws s) \<in> {50, 51, 52, 53, 70}
          \<and> fault_code (runDiagnostics rand_draws s) \<noteq> 0)
   \<and> wheel_data (runDiagnostics rand_draws s) = wheel_data s"
proof -
  have "rand_draws 2 mod 4 < 4" by simp
  then have "rand_draws 2 mod 4 \<in> {0, 1, 2, 3}" by auto
  then show ?thesis
    by (auto simp: runDiagnostics_def Let_def)
qed

theorem runDiagnostics_outcome_witness:
  "(((\<lambda>k. 50) (0::nat) mod 100 > (2::nat) \<and> (\<lambda>k. 50) (1::nat) mod 100 > (3::nat))
     \<and> current_abs_state (runDiagnostics (\<lambda>k. 50)
          (controller FAULT_DETECTED wheels_at_rest 0 0 22)) = INACTIVE
     \<and> fault_code (runDiagnostics (\<lambda>k. 50)
          (controller FAULT_DETECTED wheels_at_rest 0 0 22)) = 0)
   \<and> (\<not> ((\<lambda>k. 1) (0::nat) mod 100 > (2::nat) \<and> (\<lambda>k. 1) (1::nat) mod 100 > (3::nat))
     \<and> current_abs_state (runDiagnostics (\<lambda>k. 1)
          (controller INACTIVE wheels_at_rest 0 0 0)) = FAULT_DETECTED
     \<and> fault_code (runDiagnostics (\<lambda>k. 1)
          (controller INACTIVE wheels_at_rest 0 0 0)) = 51)"
  using runDiagnostics_outcome [of "\<lambda>k. 50" "controller FAULT_DETECTED wheels_at_rest 0 0 22"]
        runDiagnostics_outcome [of "\<lambda>k. 1" "controller INACTIVE wheels_at_rest 0 0 0"]
  by (simp add: runDiagnostics_def controller_def Let_def)

subsection \<open>Initializing: the call is ignored\<close>

text \<open>
  C10. A call of \<^verbatim>\<open>processBraking\<close> entered in state INITIALIZING returns the
  controller as it was: wheel speeds, lockup flags, applied pressures, reference
  speed, state, counter and fault code are all unchanged, and the pedal input
  is not written to the wheels.
\<close>

theorem processBraking_initializing_unchanged:
  assumes "current_abs_state s = INITIALIZING"
  shows "processBraking vehicle_state wheel_speed_sensors pedal s = s"
  using assms by (simp add: processBraking_def)

theorem processBraking_initializing_unchanged_witness:
  "current_abs_state (controller INITIALIZING wheels_at_rest 0 0 0) = INITIALIZING
   \<and> processBraking (vehicle_at 50) [sensor 0 50, sensor 1 50, sensor 2 50, sensor 3 50] 80
       (controller INITIALIZING wheels_at_rest 0 0 0)
     = controller INITIALIZING wheels_at_rest 0 0 0"
proof -
  have h: "current_abs_state (controller INITIALIZING wheels_at_rest 0 0 0) = INITIALIZING"
    by (simp add: controller_def)
  show ?thesis
    using h processBraking_initializing_unchanged [OF h] by simp
qed

end
